theory Spec2Isabelle
  imports Complex_Main
begin

section \<open>The request catcher of \<open>app.py\<close>\<close>

text \<open>
  The application is one Flask view, \<open>catch_all\<close>, and one module-level list,
  \<open>requests_log\<close>. The view reads the request object, builds a dictionary describing
  the request, inserts it at the front of the list, drops the last element once the list
  is longer than 50, and renders the Jinja template over the list.

  The view is modelled as a function from the request and the list to the response and
  the new list. What Flask computes for the view (the fields and methods of \<open>request\<close>)
  is input of the model; what the view and the template do with it is translated.
\<close>

subsection \<open>Python values\<close>

text \<open>
  The \<open>body\<close> variable of the view is dynamically typed: a \<open>str\<close>, a \<open>dict\<close> of
  strings, or whatever the JSON decoder returns. A Python float is the real number it
  denotes, or one of the three non-finite values. A \<open>dict\<close> is an association list in
  insertion order.
\<close>

datatype pyfloat = FNaN | FInf bool | FFinite real

datatype pyval =
    PNone
  | PBool bool
  | PInt int
  | PFloat pyfloat
  | PStr string
  | PList "pyval list"
  | PDict "(string \<times> pyval) list"

text \<open>Python's truth value testing, which \<open>if form_data:\<close> and Jinja's \<open>or\<close> use.\<close>

fun truthy :: "pyval \<Rightarrow> bool" where
  "truthy PNone = False"
| "truthy (PBool b) = b"
| "truthy (PInt i) = (i \<noteq> 0)"
| "truthy (PFloat f) = (case f of FFinite x \<Rightarrow> x \<noteq> 0 | _ \<Rightarrow> True)"
| "truthy (PStr s) = (s \<noteq> [])"
| "truthy (PList xs) = (xs \<noteq> [])"
| "truthy (PDict kvs) = (kvs \<noteq> [])"

text \<open>\<open>a or b\<close>: the first operand if it is true, else the second.\<close>

definition py_or :: "pyval \<Rightarrow> pyval \<Rightarrow> pyval" where
  "py_or a b = (if truthy a then a else b)"

text \<open>A \<open>dict\<close> from strings to strings, as a Python value.\<close>

definition str_dict :: "(string \<times> string) list \<Rightarrow> pyval" where
  "str_dict d = PDict (map (\<lambda>(k, v). (k, PStr v)) d)"

text \<open>\<open>sep.join(xs)\<close>\<close>

fun join :: "string \<Rightarrow> string list \<Rightarrow> string" where
  "join sep [] = []"
| "join sep [x] = x"
| "join sep (x # y # ys) = x @ sep @ join sep (y # ys)"

text \<open>
  \<open>list.insert(i, x)\<close> for a non-negative index (an index beyond the end appends) and
  \<open>list.pop()\<close>, which raises \<open>IndexError\<close> on the empty list.
\<close>

datatype error =
  IndexError | BadRequest | UnsupportedMediaType | RecursionError | RequestEntityTooLarge

definition list_insert :: "nat \<Rightarrow> 'a \<Rightarrow> 'a list \<Rightarrow> 'a list" where
  "list_insert i x xs = take i xs @ x # drop i xs"

definition list_pop :: "'a list \<Rightarrow> error + 'a list" where
  "list_pop xs = (if xs = [] then Inl IndexError else Inr (butlast xs))"

subsection \<open>The request object\<close>

text \<open>
  The result of running the JSON decoder on the payload: it fails with a decode error (a
  \<open>ValueError\<close>), or it returns a value (the JSON literal \<open>null\<close> decodes to \<open>None\<close>), or
  the payload is nested deeper than the interpreter's recursion limit and the decoder
  raises \<open>RecursionError\<close>, which is not a \<open>ValueError\<close>.
\<close>

datatype json_result = JSONDecodeError | Decoded pyval | DecoderRecursionError

text \<open>
  What the form parser does when \<open>request.form\<close> is read: for a content type that is not a
  form it leaves the stream alone and there are no fields; for a form content type it
  reads the stream to its end and returns the fields it found (none for a payload such
  as \<open>&\<close> or a multipart body with files only), or it raises \<open>RequestEntityTooLarge\<close>
  when a limit of the framework is exceeded.
\<close>

datatype form_result = NotFormType | FormFields "(string \<times> string) list" | FormTooLarge

text \<open>
  The attributes of Flask's \<open>request\<close> that the view reads. \<open>request_headers\<close> is
  \<open>request.headers.items()\<close>; \<open>request_args\<close> is the multi-dictionary \<open>request.args\<close>
  as a list of pairs; \<open>request_json\<close> is the decoder's result on the payload and
  \<open>request_form_result\<close> the form parser's; \<open>request_data\<close> is the payload as text.
\<close>

record request =
  request_method :: string
  request_headers :: "(string \<times> string) list"
  request_remote_addr :: "string option"
  request_is_json :: bool
  request_json :: json_result
  request_form_result :: form_result
  request_args :: "(string \<times> string) list"
  request_data :: string
  request_host_url :: string

text \<open>Header names are compared without regard to the case of ASCII letters.\<close>

definition lower_char :: "char \<Rightarrow> char" where
  "lower_char c =
     (case map_of (zip ''ABCDEFGHIJKLMNOPQRSTUVWXYZ'' ''abcdefghijklmnopqrstuvwxyz'') c of
        Some d \<Rightarrow> d
      | None \<Rightarrow> c)"

definition lower :: "string \<Rightarrow> string" where
  "lower s = map lower_char s"

text \<open>
  \<open>request.headers.get(key, default)\<close>: the value of the first header of that name,
  whatever the value is, and the default only if there is no such header. The result is
  \<open>None\<close> here when the header is missing, and the caller supplies its default.
\<close>

fun headers_get :: "(string \<times> string) list \<Rightarrow> string \<Rightarrow> string option" where
  "headers_get [] key = None"
| "headers_get ((k, v) # hs) key = (if lower k = lower key then Some v else headers_get hs key)"

text \<open>\<open>MultiDict.to_dict()\<close>: the first value of every key, keys in order of first use.\<close>

fun to_dict :: "(string \<times> string) list \<Rightarrow> (string \<times> string) list" where
  "to_dict [] = []"
| "to_dict ((k, v) # rest) = (k, v) # filter (\<lambda>(k', _). k' \<noteq> k) (to_dict rest)"

text \<open>
  \<open>request.get_json(silent=...)\<close>: without \<open>silent\<close> a wrong content type and a
  payload that does not decode raise; with \<open>silent\<close> both give \<open>None\<close>. Only the decode
  error is caught: a \<open>RecursionError\<close> of the decoder leaves \<open>get_json\<close> whatever
  \<open>silent\<close> is. The call keeps the payload, so \<open>get_data\<close> returns it afterwards.
\<close>

definition get_json :: "bool \<Rightarrow> request \<Rightarrow> error + pyval" where
  "get_json silent r =
     (if \<not> request_is_json r then (if silent then Inr PNone else Inl UnsupportedMediaType)
      else (case request_json r of
              JSONDecodeError \<Rightarrow> (if silent then Inr PNone else Inl BadRequest)
            | Decoded v \<Rightarrow> Inr v
            | DecoderRecursionError \<Rightarrow> Inl RecursionError))"

text \<open>
  Reading \<open>request.form\<close>: the multi-dictionary of the fields, and whether the parser has
  read the stream to its end.
\<close>

definition request_form :: "request \<Rightarrow> error + ((string \<times> string) list \<times> bool)" where
  "request_form r =
     (case request_form_result r of
        NotFormType \<Rightarrow> Inr ([], False)
      | FormFields fs \<Rightarrow> Inr (fs, True)
      | FormTooLarge \<Rightarrow> Inl RequestEntityTooLarge)"

text \<open>
  \<open>request.get_data(as_text=True)\<close>: the payload as text, but the empty string once the
  form parser has read the stream, since the parser does not keep what it reads.
\<close>

definition get_data_as_text :: "bool \<Rightarrow> request \<Rightarrow> string" where
  "get_data_as_text stream_read r = (if stream_read then [] else request_data r)"

subsection \<open>The view\<close>

text \<open>
  The dictionary \<open>current_request_data\<close>, one field per key; the key \<open>method\<close> is the
  field \<open>http_method\<close>.
\<close>

record entry =
  timestamp :: string
  ip :: "string option"
  user_agent :: string
  http_method :: string
  path :: string
  headers :: string
  body :: pyval

text \<open>Lines 148 to 165: the body of the request, by method and content type.\<close>

definition extract_body :: "request \<Rightarrow> error + pyval" where
  "extract_body r =
     (if request_method r = ''POST'' \<or> request_method r = ''PUT''
         \<or> request_method r = ''PATCH'' then
        (if request_is_json r then
           (case get_json True r of
              Inl e \<Rightarrow> Inl e
            | Inr b \<Rightarrow> (if b = PNone then Inr (PStr (get_data_as_text False r)) else Inr b))
         else
           (case request_form r of
              Inl e \<Rightarrow> Inl e
            | Inr (form, stream_read) \<Rightarrow>
                (let form_data = str_dict (to_dict form) in
                 if truthy form_data then Inr form_data
                 else Inr (PStr (get_data_as_text stream_read r)))))
      else if request_method r = ''GET'' then Inr (str_dict (to_dict (request_args r)))
      else Inr (PStr ''''))"

text \<open>Line 168: one \<open>key: value\<close> line per header.\<close>

definition headers_str :: "request \<Rightarrow> string" where
  "headers_str r =
     join [CHR 0x0A] (map (\<lambda>(key, value). key @ '': '' @ value) (request_headers r))"

text \<open>Lines 171 to 179, given the time stamp, the route's \<open>path\<close> and the body.\<close>

definition current_request_data :: "string \<Rightarrow> string \<Rightarrow> request \<Rightarrow> pyval \<Rightarrow> entry" where
  "current_request_data now p r b =
     \<lparr> timestamp = now,
       ip = (case headers_get (request_headers r) ''X-Forwarded-For'' of
               Some v \<Rightarrow> Some v
             | None \<Rightarrow> request_remote_addr r),
       user_agent = (case headers_get (request_headers r) ''User-Agent'' of
                       Some v \<Rightarrow> v
                     | None \<Rightarrow> ''N/A''),
       http_method = request_method r,
       path = ''/'' @ p,
       headers = headers_str r,
       body = b \<rparr>"

subsection \<open>The template\<close>

text \<open>
  The page is kept as the values the template interpolates, not as HTML text: the
  address of the service, the number after \<open>Captured Requests\<close>, and either the
  empty-state card or one card per entry, in the order of the list. The body block of a
  card is the value of \<open>req.body or 'No body or query parameters received.'\<close>.
\<close>

definition placeholder :: string where
  "placeholder = ''No body or query parameters received.''"

record card =
  card_method :: string
  card_path :: string
  card_timestamp :: string
  card_ip :: "string option"
  card_user_agent :: string
  card_headers :: string
  card_body :: pyval

datatype listing = EmptyState | Cards "card list"

record page =
  page_request_url :: string
  page_count :: nat
  page_listing :: listing

definition render_card :: "entry \<Rightarrow> card" where
  "render_card req =
     \<lparr> card_method = http_method req,
       card_path = path req,
       card_timestamp = timestamp req,
       card_ip = ip req,
       card_user_agent = user_agent req,
       card_headers = headers req,
       card_body = py_or (body req) (PStr placeholder) \<rparr>"

definition render_template_string :: "entry list \<Rightarrow> string \<Rightarrow> page" where
  "render_template_string requests_log request_url =
     \<lparr> page_request_url = request_url,
       page_count = length requests_log,
       page_listing = (if requests_log \<noteq> [] then Cards (map render_card requests_log)
                       else EmptyState) \<rparr>"

text \<open>A view that returns a string answers with status 200 and an HTML content type.\<close>

record response =
  status :: nat
  mimetype :: string
  content :: page

definition make_response :: "page \<Rightarrow> response" where
  "make_response p = \<lparr> status = 200, mimetype = ''text/html'', content = p \<rparr>"

subsection \<open>catch_all\<close>

text \<open>
  Lines 182 to 186: insert at index 0, then pop the last element if the list has more
  than 50.
\<close>

definition log_request :: "entry \<Rightarrow> entry list \<Rightarrow> error + entry list" where
  "log_request e requests_log =
     (let l = list_insert 0 e requests_log in
      if length l > 50 then list_pop l else Inr l)"

text \<open>
  The view. \<open>now\<close> is the formatted reading of the clock and \<open>p\<close> the \<open>path\<close>
  argument that the route passes (empty for the root route). An exception in any step
  leaves the view at that step.
\<close>

definition catch_all ::
  "string \<Rightarrow> string \<Rightarrow> request \<Rightarrow> entry list \<Rightarrow> error + (response \<times> entry list)" where
  "catch_all now p r requests_log =
     (case extract_body r of
        Inl e \<Rightarrow> Inl e
      | Inr b \<Rightarrow>
          (case log_request (current_request_data now p r b) requests_log of
             Inl e \<Rightarrow> Inl e
           | Inr l \<Rightarrow>
               Inr (make_response (render_template_string l (request_host_url r)), l)))"

text \<open>The methods of the two routes that lead to the view.\<close>

definition route_methods :: "string list" where
  "route_methods = [''GET'', ''POST'', ''PUT'', ''DELETE'', ''PATCH'', ''OPTIONS'']"

text \<open>
  The server handling a sequence of requests one after the other, each given as the
  clock reading, the route's path and the request. It collects what it answers. When the
  view raises, the server answers with an error and goes on; the view has not touched
  the list then, since it raises before line 182 or not at all.
\<close>

fun serve ::
  "(string \<times> string \<times> request) list \<Rightarrow> entry list
     \<Rightarrow> (error + response) list \<times> entry list" where
  "serve [] requests_log = ([], requests_log)"
| "serve ((now, p, r) # calls) requests_log =
     (case catch_all now p r requests_log of
        Inl e \<Rightarrow>
          (case serve calls requests_log of (resps, l') \<Rightarrow> (Inl e # resps, l'))
      | Inr (resp, l) \<Rightarrow>
          (case serve calls l of (resps, l') \<Rightarrow> (Inr resp # resps, l')))"

text \<open>The requests of a sequence that the view handles, that is, for which it returns.\<close>

definition handled ::
  "(string \<times> string \<times> request) list \<Rightarrow> (string \<times> string \<times> request) list" where
  "handled calls = filter (\<lambda>(now, p, r). \<not> isl (catch_all now p r [])) calls"

text \<open>Lines 182 to 186 for a sequence of dictionaries, inserted one after the other.\<close>

fun log_all :: "entry list \<Rightarrow> entry list \<Rightarrow> error + entry list" where
  "log_all [] requests_log = Inr requests_log"
| "log_all (e # es) requests_log =
     (case log_request e requests_log of
        Inl err \<Rightarrow> Inl err
      | Inr l \<Rightarrow> log_all es l)"

subsection \<open>Observing a run of the view\<close>

text \<open>
  The dictionary at index 0 of \<open>requests_log\<close> when the view has returned, and the
  first card of the page it returned. Both are \<open>None\<close> when the view raised.
\<close>

definition newest_entry :: "error + (response \<times> entry list) \<Rightarrow> entry option" where
  "newest_entry res =
     (case res of
        Inl err \<Rightarrow> None
      | Inr (resp, l) \<Rightarrow> (case l of [] \<Rightarrow> None | e # es \<Rightarrow> Some e))"

definition newest_card :: "error + (response \<times> entry list) \<Rightarrow> card option" where
  "newest_card res =
     (case res of
        Inl err \<Rightarrow> None
      | Inr (resp, l) \<Rightarrow>
          (case page_listing (content resp) of
             EmptyState \<Rightarrow> None
           | Cards cs \<Rightarrow> (case cs of [] \<Rightarrow> None | c # cs' \<Rightarrow> Some c)))"

text \<open>
  The numbers after \<open>Captured Requests\<close> on the pages that a run of the server returned,
  and the list at the end of the run.
\<close>

fun page_counts :: "(error + response) list \<Rightarrow> nat list" where
  "page_counts [] = []"
| "page_counts (Inl e # resps) = page_counts resps"
| "page_counts (Inr resp # resps) = page_count (content resp) # page_counts resps"

definition captured_counts :: "(error + response) list \<times> entry list \<Rightarrow> nat list" where
  "captured_counts res = page_counts (fst res)"

definition final_log :: "(error + response) list \<times> entry list \<Rightarrow> entry list" where
  "final_log res = snd res"

subsection \<open>Sample requests\<close>

text \<open>\<open>GET /foo?a=1&b=2\<close> from a local client.\<close>

definition get_foo :: request where
  "get_foo =
     \<lparr> request_method = ''GET'',
       request_headers = [(''Host'', ''localhost:5000''), (''User-Agent'', ''curl/8.5.0'')],
       request_remote_addr = Some ''127.0.0.1'',
       request_is_json = False,
       request_json = JSONDecodeError,
       request_form_result = NotFormType,
       request_args = [(''a'', ''1''), (''b'', ''2'')],
       request_data = [],
       request_host_url = ''http://localhost:5000/'' \<rparr>"

text \<open>
  A request with content type \<open>application/json\<close>, given the method, the payload and
  what the payload decodes to.
\<close>

definition send_json :: "string \<Rightarrow> string \<Rightarrow> json_result \<Rightarrow> request" where
  "send_json m payload decoded =
     \<lparr> request_method = m,
       request_headers = [(''Host'', ''localhost:5000''), (''User-Agent'', ''curl/8.5.0''),
                          (''Content-Type'', ''application/json'')],
       request_remote_addr = Some ''127.0.0.1'',
       request_is_json = True,
       request_json = decoded,
       request_form_result = NotFormType,
       request_args = [],
       request_data = payload,
       request_host_url = ''http://localhost:5000/'' \<rparr>"

text \<open>
  \<open>POST\<close> with content type \<open>application/x-www-form-urlencoded\<close> and the payload \<open>&\<close>,
  in which the form parser finds no field.
\<close>

definition post_form_ampersand :: request where
  "post_form_ampersand =
     \<lparr> request_method = ''POST'',
       request_headers = [(''Host'', ''localhost:5000''),
                          (''Content-Type'', ''application/x-www-form-urlencoded'')],
       request_remote_addr = Some ''127.0.0.1'',
       request_is_json = False,
       request_json = JSONDecodeError,
       request_form_result = FormFields [],
       request_args = [],
       request_data = ''&'',
       request_host_url = ''http://localhost:5000/'' \<rparr>"

text \<open>
  \<open>POST\<close> with content type \<open>application/json\<close> whose payload is 100000 opening brackets
  followed by 100000 closing brackets: valid JSON, nested deeper than the decoder can go.
\<close>

definition deep_payload :: string where
  "deep_payload = replicate 100000 (CHR ''['') @ replicate 100000 (CHR '']'')"

definition post_deep_json :: request where
  "post_deep_json =
     \<lparr> request_method = ''POST'',
       request_headers = [(''Host'', ''localhost:5000''),
                          (''Content-Type'', ''application/json'')],
       request_remote_addr = Some ''127.0.0.1'',
       request_is_json = True,
       request_json = DecoderRecursionError,
       request_form_result = NotFormType,
       request_args = [],
       request_data = deep_payload,
       request_host_url = ''http://localhost:5000/'' \<rparr>"

text \<open>A request with the given \<open>X-Forwarded-For\<close> header, from the peer \<open>203.0.113.7\<close>.\<close>

definition forwarded :: "string \<Rightarrow> request" where
  "forwarded v =
     \<lparr> request_method = ''GET'',
       request_headers = [(''Host'', ''localhost:5000''), (''X-Forwarded-For'', v)],
       request_remote_addr = Some ''203.0.113.7'',
       request_is_json = False,
       request_json = JSONDecodeError,
       request_form_result = NotFormType,
       request_args = [],
       request_data = [],
       request_host_url = ''http://localhost:5000/'' \<rparr>"

text \<open>A reading of the clock.\<close>

definition clock :: string where
  "clock = ''2024-01-01 12:00:00''"

text \<open>The dictionary of \<open>get_foo\<close> sent to the path of \<open>n\<close> letters \<open>a\<close>.\<close>

definition nth_entry :: "nat \<Rightarrow> entry" where
  "nth_entry n =
     current_request_data clock (replicate n (CHR ''a'')) get_foo
       (str_dict (to_dict (request_args get_foo)))"

text \<open>\<open>n\<close> requests in a row, the one numbered \<open>i\<close> to the path of \<open>i\<close> letters \<open>a\<close>.\<close>

definition sample_calls :: "nat \<Rightarrow> (string \<times> string \<times> request) list" where
  "sample_calls n = map (\<lambda>i. (clock, replicate i (CHR ''a''), get_foo)) [0..<n]"

section \<open>Properties\<close>

subsection \<open>The steps of the view\<close>

lemma list_insert_0: "list_insert 0 x xs = x # xs"
  by (simp add: list_insert_def)

text \<open>The guard \<open>len(requests_log) > 50\<close> keeps \<open>pop\<close> away from the empty list.\<close>

lemma log_request_eq:
  "log_request e l = Inr (if 50 \<le> length l then butlast (e # l) else e # l)"
  by (simp add: log_request_def list_insert_0 list_pop_def Let_def)

lemma log_request_take:
  "length l \<le> 50 \<Longrightarrow> log_request e l = Inr (take 50 (e # l))"
  by (cases "length l = 50") (simp_all add: log_request_eq butlast_conv_take)

lemma truthy_str_dict: "truthy (str_dict d) = (d \<noteq> [])"
  by (simp add: str_dict_def)

lemma to_dict_empty: "(to_dict ms = []) = (ms = [])"
  by (cases ms) auto

text \<open>The body by branch. Two branches can raise: the decoder and the form parser.\<close>

lemma extract_body_json:
  assumes "request_method r \<in> {''POST'', ''PUT'', ''PATCH''}" and "request_is_json r"
  shows "extract_body r =
           (case request_json r of
              JSONDecodeError \<Rightarrow> Inr (PStr (request_data r))
            | Decoded v \<Rightarrow> Inr (if v = PNone then PStr (request_data r) else v)
            | DecoderRecursionError \<Rightarrow> Inl RecursionError)"
  using assms
  by (auto simp add: extract_body_def get_json_def get_data_as_text_def
      split: json_result.splits)

lemma extract_body_form:
  assumes "request_method r \<in> {''POST'', ''PUT'', ''PATCH''}" and "\<not> request_is_json r"
  shows "extract_body r =
           (case request_form_result r of
              NotFormType \<Rightarrow> Inr (PStr (request_data r))
            | FormFields fs \<Rightarrow> Inr (if fs \<noteq> [] then str_dict (to_dict fs) else PStr [])
            | FormTooLarge \<Rightarrow> Inl RequestEntityTooLarge)"
  using assms
  by (auto simp add: extract_body_def request_form_def Let_def truthy_str_dict to_dict_empty
      get_data_as_text_def split: form_result.splits)

lemma extract_body_get:
  assumes "request_method r = ''GET''"
  shows "extract_body r = Inr (str_dict (to_dict (request_args r)))"
  using assms by (simp add: extract_body_def)

lemma extract_body_other:
  assumes "request_method r \<notin> {''GET'', ''POST'', ''PUT'', ''PATCH''}"
  shows "extract_body r = Inr (PStr [])"
  using assms by (simp add: extract_body_def)

text \<open>The view, once the body is known: the new list and the page over it.\<close>

lemma catch_all_eq:
  assumes "extract_body r = Inr b"
  shows "catch_all now p r l =
    Inr (make_response (render_template_string
           (if 50 \<le> length l then butlast (current_request_data now p r b # l)
            else current_request_data now p r b # l) (request_host_url r)),
         if 50 \<le> length l then butlast (current_request_data now p r b # l)
         else current_request_data now p r b # l)"
  using assms by (simp add: catch_all_def log_request_eq)

lemma catch_all_raises:
  assumes "extract_body r = Inl e"
  shows "catch_all now p r l = Inl e"
  using assms by (simp add: catch_all_def)

lemma isl_catch_all: "isl (catch_all now p r l) = isl (extract_body r)"
  by (cases "extract_body r") (simp_all add: catch_all_eq catch_all_raises)

lemma newest_entry_catch_all:
  assumes "extract_body r = Inr b"
  shows "newest_entry (catch_all now p r l) = Some (current_request_data now p r b)"
  by (cases l) (simp_all add: catch_all_eq [OF assms] newest_entry_def)

lemma newest_card_catch_all:
  assumes "extract_body r = Inr b"
  shows "newest_card (catch_all now p r l) =
           Some (render_card (current_request_data now p r b))"
  by (cases l)
    (simp_all add: catch_all_eq [OF assms] newest_card_def make_response_def
      render_template_string_def)

text \<open>A run of the server from a list within the bound.\<close>

lemma serve_run:
  "length l \<le> 50 \<Longrightarrow>
   page_counts (fst (serve calls l))
     = map (\<lambda>i. min (length l + Suc i) 50) [0..<length (handled calls)]
   \<and> length (snd (serve calls l)) = min (length l + length (handled calls)) 50"
proof (induction calls arbitrary: l)
  case Nil
  then show ?case by (simp add: handled_def)
next
  case (Cons c calls)
  obtain now p r where c: "c = (now, p, r)"
    by (cases c)
  show ?case
  proof (cases "extract_body r")
    case (Inl e)
    have h: "handled (c # calls) = handled calls"
      by (simp add: handled_def c isl_catch_all Inl)
    have "serve (c # calls) l = (Inl e # fst (serve calls l), snd (serve calls l))"
      by (simp add: c catch_all_raises [OF Inl] split: prod.splits)
    then show ?thesis
      using Cons.IH [OF Cons.prems] by (simp add: h)
  next
    case (Inr b)
    let ?e = "current_request_data now p r b"
    let ?l1 = "if 50 \<le> length l then butlast (?e # l) else ?e # l"
    let ?resp = "make_response (render_template_string ?l1 (request_host_url r))"
    have h: "handled (c # calls) = c # handled calls"
      by (simp add: handled_def c isl_catch_all Inr)
    have len1: "length ?l1 = min (Suc (length l)) 50"
      using Cons.prems by auto
    then have "length ?l1 \<le> 50"
      by simp
    from Cons.IH [OF this] have
      m: "page_counts (fst (serve calls ?l1))
            = map (\<lambda>i. min (length ?l1 + Suc i) 50) [0..<length (handled calls)]" and
      n: "length (snd (serve calls ?l1)) = min (length ?l1 + length (handled calls)) 50"
      by blast+
    have ce: "catch_all now p r l = Inr (?resp, ?l1)"
      using catch_all_eq [OF Inr] by simp
    have s: "serve (c # calls) l = (Inr ?resp # fst (serve calls ?l1), snd (serve calls ?l1))"
      unfolding c by (simp add: ce split: prod.splits)
    have pc: "page_count (content ?resp) = min (Suc (length l)) 50"
      using len1 by (simp add: make_response_def render_template_string_def)
    have sh: "map (\<lambda>i. min (length ?l1 + Suc i) 50) [0..<length (handled calls)]
        = map (\<lambda>i. min (length l + Suc (Suc i)) 50) [0..<length (handled calls)]"
      using len1 by auto
    have "page_counts (fst (serve (c # calls) l))
        = map (\<lambda>i. min (length l + Suc i) 50) [0..<length (handled (c # calls))]"
      unfolding s h using m pc sh by (simp add: map_upt_Suc del: upt_Suc)
    moreover have "length (snd (serve (c # calls) l))
        = min (length l + length (handled (c # calls))) 50"
      unfolding s h using n len1 by simp
    ultimately show ?thesis
      by blast
  qed
qed

text \<open>The view handles every one of the sample requests.\<close>

lemma handled_sample_calls: "handled (sample_calls n) = sample_calls n"
proof -
  have "extract_body get_foo = Inr (str_dict (to_dict (request_args get_foo)))"
    by (rule extract_body_get) (simp add: get_foo_def)
  then show ?thesis
    by (simp add: handled_def sample_calls_def isl_catch_all)
qed

text \<open>Inserting into the empty list keeps the newest 50, newest first.\<close>

lemma log_all_take:
  "length l \<le> 50 \<Longrightarrow> log_all es l = Inr (take 50 (rev es @ l))"
proof (induction es arbitrary: l)
  case Nil
  then show ?case by simp
next
  case (Cons e es)
  have "length (take 50 (e # l)) \<le> 50"
    by simp
  from Cons.IH [OF this] have "log_all es (take 50 (e # l)) = Inr (take 50 (rev es @ take 50 (e # l)))" .
  moreover have "take 50 (rev es @ take 50 (e # l)) = take 50 (rev es @ e # l)"
    by (simp add: take_Cons')
  ultimately show ?case
    using Cons.prems by (simp add: log_request_take del: take_Suc_Cons)
qed

text \<open>The body block of a card is never a false value.\<close>

lemma truthy_py_or_placeholder: "truthy (py_or b (PStr placeholder))"
  by (simp add: py_or_def placeholder_def)

subsection \<open>The bounded log\<close>

text \<open>
  Claim C1. When the server is sent any sequence of requests starting from the empty
  list, and the view handles \<open>N\<close> of them, the page of the handled request number \<open>i\<close>
  (counting from 1) shows the count \<open>min i 50\<close>, and the list has \<open>min N 50\<close> entries at
  the end. One run of the view that returns, on a list of at most 50 entries, leaves a
  list of at most 50 entries, whose length is the count on the page: the view trims
  right after it inserts.
\<close>

theorem log_length_is_min:
  "captured_counts (serve calls []) = map (\<lambda>i. min (Suc i) 50) [0..<length (handled calls)]
   \<and> length (final_log (serve calls [])) = min (length (handled calls)) 50
   \<and> (length l \<le> 50 \<and> \<not> isl (catch_all now p r l) \<longrightarrow>
        (\<exists>resp l'. catch_all now p r l = Inr (resp, l')
           \<and> length l' = min (Suc (length l)) 50
           \<and> page_count (content resp) = length l'))"
proof -
  have "length ([] :: entry list) \<le> 50"
    by simp
  from serve_run [OF this, of calls]
  have run: "captured_counts (serve calls [])
               = map (\<lambda>i. min (Suc i) 50) [0..<length (handled calls)]"
    "length (final_log (serve calls [])) = min (length (handled calls)) 50"
    by (simp_all add: captured_counts_def final_log_def)
  have step: "\<exists>resp l'. catch_all now p r l = Inr (resp, l')
           \<and> length l' = min (Suc (length l)) 50
           \<and> page_count (content resp) = length l'"
    if bound: "length l \<le> 50" and returns: "\<not> isl (catch_all now p r l)"
  proof -
    obtain b where b: "extract_body r = Inr b"
      using returns by (cases "extract_body r") (simp_all add: isl_catch_all)
    show ?thesis
      using bound
      by (auto simp add: catch_all_eq [OF b] make_response_def render_template_string_def)
  qed
  from run step show ?thesis
    by blast
qed

text \<open>C1 on 51 requests in a row, and on one request that meets a full list.\<close>

theorem log_length_is_min_witness:
  "length (handled (sample_calls 51)) = 51
   \<and> captured_counts (serve (sample_calls 51) []) = map (\<lambda>i. min (Suc i) 50) [0..<51]
   \<and> length (final_log (serve (sample_calls 51) [])) = 50
   \<and> length (replicate 50 (nth_entry 0)) \<le> 50
   \<and> \<not> isl (catch_all clock ''foo'' get_foo (replicate 50 (nth_entry 0)))
   \<and> (\<exists>resp l'. catch_all clock ''foo'' get_foo (replicate 50 (nth_entry 0)) = Inr (resp, l')
           \<and> length l' = 50
           \<and> page_count (content resp) = length l')"
proof -
  have h: "length (handled (sample_calls 51)) = 51"
    by (simp add: handled_sample_calls) (simp add: sample_calls_def)
  have "extract_body get_foo = Inr (str_dict (to_dict (request_args get_foo)))"
    by (rule extract_body_get) (simp add: get_foo_def)
  then have r: "\<not> isl (catch_all clock ''foo'' get_foo (replicate 50 (nth_entry 0)))"
    by (simp add: isl_catch_all)
  show ?thesis
    using h r
      log_length_is_min [of "sample_calls 51" "replicate 50 (nth_entry 0)" clock "''foo''" get_foo]
    by simp
qed

text \<open>
  Claim C2. Inserting puts the new dictionary at index 0, whatever the list was; when the
  view has extracted the body of its request, it leaves the dictionary of the request at
  index 0 and its card first on the page. Inserting 51 dictionaries \<open>R1 .. R51\<close> into the
  empty list leaves \<open>[R51, .., R2]\<close>.
\<close>

theorem prepend_front_evict_tail:
  "(\<exists>l'. log_request e l = Inr l' \<and> l' \<noteq> [] \<and> l' ! 0 = e)
   \<and> (extract_body r = Inr b \<longrightarrow>
          newest_entry (catch_all now p r l) = Some (current_request_data now p r b)
          \<and> newest_card (catch_all now p r l)
              = Some (render_card (current_request_data now p r b)))
   \<and> (length rs = 51 \<longrightarrow> log_all rs [] = Inr (rev (tl rs)))"
proof -
  have "\<exists>l'. log_request e l = Inr l' \<and> l' \<noteq> [] \<and> l' ! 0 = e"
    by (cases l) (simp_all add: log_request_eq)
  moreover have "newest_entry (catch_all now p r l) = Some (current_request_data now p r b)
          \<and> newest_card (catch_all now p r l)
              = Some (render_card (current_request_data now p r b))"
    if "extract_body r = Inr b"
    using newest_entry_catch_all [OF that] newest_card_catch_all [OF that] by blast
  moreover have "log_all rs [] = Inr (rev (tl rs))" if "length rs = 51"
  proof -
    have "log_all rs [] = Inr (take 50 (rev rs))"
      using log_all_take [of "[]" rs] by simp
    moreover have "take 50 (rev rs) = rev (drop 1 rs)"
      using that by (simp add: take_rev)
    ultimately show ?thesis
      by (simp add: drop_Suc)
  qed
  ultimately show ?thesis
    by blast
qed

text \<open>C2 on 51 dictionaries that differ in their path, and on one \<open>GET\<close> request.\<close>

theorem prepend_front_evict_tail_witness:
  "length (map nth_entry [1..<52]) = 51
   \<and> log_all (map nth_entry [1..<52]) [] = Inr (rev (map nth_entry [2..<52]))
   \<and> extract_body get_foo = Inr (str_dict (to_dict (request_args get_foo)))
   \<and> newest_entry (catch_all clock ''foo'' get_foo [])
        = Some (current_request_data clock ''foo'' get_foo
                  (str_dict (to_dict (request_args get_foo))))"
proof -
  let ?rs = "map nth_entry [1..<52]"
  let ?b = "str_dict (to_dict (request_args get_foo))"
  have len: "length ?rs = 51"
    by simp
  have "[1..<52] = 1 # [Suc 1..<52]"
    by (rule upt_conv_Cons) simp
  then have t: "tl ?rs = map nth_entry [2..<52]"
    by (simp only: list.map list.sel Suc_1)
  have b: "extract_body get_foo = Inr ?b"
    by (rule extract_body_get) (simp add: get_foo_def)
  note c2 = prepend_front_evict_tail [of "nth_entry 0" "[]" get_foo ?b clock "''foo''" ?rs]
  from c2 len have "log_all ?rs [] = Inr (rev (tl ?rs))"
    by blast
  moreover from c2 b have "newest_entry (catch_all clock ''foo'' get_foo [])
        = Some (current_request_data clock ''foo'' get_foo ?b)"
    by blast
  ultimately show ?thesis
    using len t b by (simp only:)
qed

subsection \<open>The captured dictionary\<close>

text \<open>
  Claim C3, as stated, at a request whose \<open>X-Forwarded-For\<close> header is present with the
  empty value: the stored client address is the empty string, not the address of the
  peer.
\<close>

theorem forwarded_for_empty_counterexample:
  "headers_get (request_headers (forwarded [])) ''X-Forwarded-For'' = Some []
   \<and> request_remote_addr (forwarded []) = Some ''203.0.113.7''
   \<and> map_option ip (newest_entry (catch_all clock [] (forwarded []) [])) = Some (Some [])
   \<and> map_option ip (newest_entry (catch_all clock [] (forwarded []) []))
        \<noteq> Some (request_remote_addr (forwarded []))"
proof -
  have m: "request_method (forwarded []) = ''GET''"
    by (simp add: forwarded_def)
  have h: "headers_get (request_headers (forwarded [])) ''X-Forwarded-For'' = Some []"
    by (simp add: forwarded_def lower_def lower_char_def)
  have a: "request_remote_addr (forwarded []) = Some ''203.0.113.7''"
    by (simp add: forwarded_def)
  have "map_option ip (newest_entry (catch_all clock [] (forwarded []) [])) = Some (Some [])"
    by (simp add: newest_entry_catch_all [OF extract_body_get [OF m]] current_request_data_def h)
  with h a show ?thesis
    by auto
qed

text \<open>
  Claim C3, amended. The client address in the dictionary of a request is the value of
  the first \<open>X-Forwarded-For\<close> header whenever the request has such a header, whatever the
  value, and the address of the peer only when it has none. With
  \<open>X-Forwarded-For: 9.9.9.9\<close> it is \<open>9.9.9.9\<close>, whatever the peer. A request for which the
  view raises has no dictionary.
\<close>

theorem client_address_from_header:
  "(extract_body r = Inr b \<longrightarrow>
      map_option ip (newest_entry (catch_all now p r l))
        = Some (case headers_get (request_headers r) ''X-Forwarded-For'' of
                  Some v \<Rightarrow> Some v
                | None \<Rightarrow> request_remote_addr r))
   \<and> (extract_body r = Inr b
        \<and> headers_get (request_headers r) ''X-Forwarded-For'' = Some ''9.9.9.9''
        \<longrightarrow> map_option ip (newest_entry (catch_all now p r l)) = Some (Some ''9.9.9.9''))
   \<and> (map_option ip (newest_entry (catch_all now p r l)) = None
        \<or> map_option ip (newest_entry (catch_all now p r l))
            = Some (case headers_get (request_headers r) ''X-Forwarded-For'' of
                      Some v \<Rightarrow> Some v
                    | None \<Rightarrow> request_remote_addr r))"
proof (cases "extract_body r")
  case (Inl e)
  then show ?thesis
    by (simp add: catch_all_raises newest_entry_def)
next
  case (Inr b')
  then show ?thesis
    by (simp add: newest_entry_catch_all [OF Inr] current_request_data_def)
qed

text \<open>C3 at a request from the peer \<open>203.0.113.7\<close> that carries \<open>X-Forwarded-For: 9.9.9.9\<close>.\<close>

theorem client_address_from_header_witness:
  "extract_body (forwarded ''9.9.9.9'') = Inr (PDict [])
   \<and> headers_get (request_headers (forwarded ''9.9.9.9'')) ''X-Forwarded-For'' = Some ''9.9.9.9''
   \<and> request_remote_addr (forwarded ''9.9.9.9'') = Some ''203.0.113.7''
   \<and> map_option ip (newest_entry (catch_all clock ''foo'' (forwarded ''9.9.9.9'') []))
        = Some (Some ''9.9.9.9'')"
proof -
  let ?r = "forwarded ''9.9.9.9''"
  have b: "extract_body ?r = Inr (PDict [])"
    using extract_body_get [of ?r] by (simp add: forwarded_def str_dict_def)
  have h: "headers_get (request_headers ?r) ''X-Forwarded-For'' = Some ''9.9.9.9''"
    by (simp add: forwarded_def lower_def lower_char_def)
  have a: "request_remote_addr ?r = Some ''203.0.113.7''"
    by (simp add: forwarded_def)
  from client_address_from_header [of ?r "PDict []" clock "''foo''" "[]"] b h
  have "map_option ip (newest_entry (catch_all clock ''foo'' ?r [])) = Some (Some ''9.9.9.9'')"
    by blast
  with b h a show ?thesis
    by (simp only:)
qed

text \<open>
  Claim C4 at a \<open>POST\<close> with JSON content type and the payload \<open>null\<close>: the decoder
  succeeds and returns \<open>None\<close>, and the view stores the text \<open>null\<close>, not the decoded
  value, because \<open>get_json(silent=True)\<close> returns \<open>None\<close> for a failure as well.
\<close>

theorem json_null_stored_as_text:
  "request_json (send_json ''POST'' ''null'' (Decoded PNone)) = Decoded PNone
   \<and> map_option body (newest_entry (catch_all clock [] (send_json ''POST'' ''null'' (Decoded PNone)) []))
        = Some (PStr ''null'')
   \<and> map_option body (newest_entry (catch_all clock [] (send_json ''POST'' ''null'' (Decoded PNone)) []))
        \<noteq> Some PNone"
proof -
  let ?r = "send_json ''POST'' ''null'' (Decoded PNone)"
  have m: "request_method ?r \<in> {''POST'', ''PUT'', ''PATCH''}" and j: "request_is_json ?r"
    by (simp_all add: send_json_def)
  have "extract_body ?r = Inr (PStr ''null'')"
    using extract_body_json [OF m j] by (simp add: send_json_def)
  from newest_entry_catch_all [OF this] show ?thesis
    by (simp add: current_request_data_def send_json_def)
qed

text \<open>
  Claim C5 at a \<open>POST\<close> with a form content type and the payload \<open>&\<close>: the form has no
  field, and the view stores the empty string, not the payload, because reading
  \<open>request.form\<close> has used up the stream before line 162 asks for the data.
\<close>

theorem form_fallback_loses_payload:
  "request_method post_form_ampersand = ''POST''
   \<and> \<not> request_is_json post_form_ampersand
   \<and> request_data post_form_ampersand = ''&''
   \<and> request_form post_form_ampersand = Inr ([], True)
   \<and> map_option body (newest_entry (catch_all clock [] post_form_ampersand [])) = Some (PStr [])
   \<and> map_option body (newest_entry (catch_all clock [] post_form_ampersand []))
        \<noteq> Some (PStr (request_data post_form_ampersand))"
proof -
  let ?r = "post_form_ampersand"
  have m: "request_method ?r \<in> {''POST'', ''PUT'', ''PATCH''}" and j: "\<not> request_is_json ?r"
    and mm: "request_method ?r = ''POST''"
    by (simp_all add: post_form_ampersand_def)
  have d: "request_data ?r = ''&''" and f: "request_form ?r = Inr ([], True)"
    by (simp_all add: post_form_ampersand_def request_form_def)
  have "extract_body ?r = Inr (PStr [])"
    using extract_body_form [OF m j] by (simp add: post_form_ampersand_def)
  from newest_entry_catch_all [OF this]
  have v: "map_option body (newest_entry (catch_all clock [] ?r [])) = Some (PStr [])"
    by (simp add: current_request_data_def)
  have ne: "map_option body (newest_entry (catch_all clock [] ?r []))
              \<noteq> Some (PStr (request_data ?r))"
    unfolding v d by simp
  from mm j d f v ne show ?thesis
    by (intro conjI)
qed

text \<open>
  Claim C6. For \<open>GET\<close> the stored path is \<open>/\<close> followed by the path of the route (so
  \<open>/\<close> alone for the root route), and the stored body is the dictionary of the query
  parameters.
\<close>

theorem get_path_and_query:
  "request_method r = ''GET'' \<longrightarrow>
     map_option (\<lambda>e. (path e, body e)) (newest_entry (catch_all now p r l))
       = Some (''/'' @ p, str_dict (to_dict (request_args r)))
     \<and> map_option path (newest_entry (catch_all now [] r l)) = Some ''/''"
proof
  assume g: "request_method r = ''GET''"
  show "map_option (\<lambda>e. (path e, body e)) (newest_entry (catch_all now p r l))
       = Some (''/'' @ p, str_dict (to_dict (request_args r)))
     \<and> map_option path (newest_entry (catch_all now [] r l)) = Some ''/''"
    by (simp add: newest_entry_catch_all [OF extract_body_get [OF g]] current_request_data_def)
qed

text \<open>C6 at \<open>GET /foo?a=1&b=2\<close>.\<close>

theorem get_path_and_query_witness:
  "request_method get_foo = ''GET''
   \<and> request_args get_foo = [(''a'', ''1''), (''b'', ''2'')]
   \<and> map_option (\<lambda>e. (path e, body e)) (newest_entry (catch_all clock ''foo'' get_foo []))
       = Some (''/foo'', PDict [(''a'', PStr ''1''), (''b'', PStr ''2'')])
   \<and> map_option path (newest_entry (catch_all clock [] get_foo [])) = Some ''/''"
  using get_path_and_query [of get_foo clock "''foo''" "[]"]
  by (simp add: get_foo_def str_dict_def)

subsection \<open>The body block and the response\<close>

text \<open>
  Claim C7. When the stored body of a request is a false value, its card shows the
  placeholder; a request with a method other than \<open>GET\<close>, \<open>POST\<close>, \<open>PUT\<close> and \<open>PATCH\<close>
  stores the empty string and shows the placeholder. The body block of a card is never
  a false value, and it is a true value whenever the view has extracted the body; the
  placeholder is a fixed text.
\<close>

theorem empty_body_shows_placeholder:
  "(map_option (\<lambda>e. truthy (body e)) (newest_entry (catch_all now p r l)) = Some False \<longrightarrow>
      map_option card_body (newest_card (catch_all now p r l)) = Some (PStr placeholder))
   \<and> (request_method r \<notin> {''GET'', ''POST'', ''PUT'', ''PATCH''} \<longrightarrow>
        map_option body (newest_entry (catch_all now p r l)) = Some (PStr [])
        \<and> map_option card_body (newest_card (catch_all now p r l)) = Some (PStr placeholder))
   \<and> (extract_body r = Inr b \<longrightarrow>
        map_option (\<lambda>c. truthy (card_body c)) (newest_card (catch_all now p r l)) = Some True)
   \<and> map_option (\<lambda>c. truthy (card_body c)) (newest_card (catch_all now p r l)) \<noteq> Some False
   \<and> placeholder = ''No body or query parameters received.''"
proof (cases "extract_body r")
  case (Inl e)
  have "request_method r \<in> {''GET'', ''POST'', ''PUT'', ''PATCH''}"
    using extract_body_other [of r] Inl by auto
  then show ?thesis
    using Inl
    by (simp add: catch_all_raises [OF Inl] newest_entry_def newest_card_def placeholder_def)
next
  case (Inr b')
  have e: "map_option body (newest_entry (catch_all now p r l)) = Some b'"
    by (simp add: newest_entry_catch_all [OF Inr] current_request_data_def)
  have t: "map_option (\<lambda>e. truthy (body e)) (newest_entry (catch_all now p r l)) = Some (truthy b')"
    by (simp add: newest_entry_catch_all [OF Inr] current_request_data_def)
  have c: "map_option card_body (newest_card (catch_all now p r l))
             = Some (py_or b' (PStr placeholder))"
    by (simp add: newest_card_catch_all [OF Inr] render_card_def current_request_data_def)
  have k: "map_option (\<lambda>c. truthy (card_body c)) (newest_card (catch_all now p r l))
             = Some (truthy (py_or b' (PStr placeholder)))"
    by (simp add: newest_card_catch_all [OF Inr] render_card_def current_request_data_def)
  have o: "b' = PStr []" if "request_method r \<notin> {''GET'', ''POST'', ''PUT'', ''PATCH''}"
    using extract_body_other [OF that] Inr by simp
  have "py_or b' (PStr placeholder) = PStr placeholder" if "\<not> truthy b'"
    using that by (simp add: py_or_def)
  moreover have "py_or (PStr []) (PStr placeholder) = PStr placeholder"
    by (simp add: py_or_def)
  ultimately show ?thesis
    unfolding e t c k using o truthy_py_or_placeholder [of b']
    by (auto simp add: placeholder_def)
qed

text \<open>C7 at a \<open>DELETE\<close> request.\<close>

theorem empty_body_shows_placeholder_witness:
  "request_method (get_foo\<lparr>request_method := ''DELETE''\<rparr>) \<notin> {''GET'', ''POST'', ''PUT'', ''PATCH''}
   \<and> extract_body (get_foo\<lparr>request_method := ''DELETE''\<rparr>) = Inr (PStr [])
   \<and> map_option body (newest_entry (catch_all clock ''foo'' (get_foo\<lparr>request_method := ''DELETE''\<rparr>) []))
        = Some (PStr [])
   \<and> map_option (\<lambda>e. truthy (body e))
        (newest_entry (catch_all clock ''foo'' (get_foo\<lparr>request_method := ''DELETE''\<rparr>) [])) = Some False
   \<and> map_option card_body (newest_card (catch_all clock ''foo'' (get_foo\<lparr>request_method := ''DELETE''\<rparr>) []))
        = Some (PStr ''No body or query parameters received.'')
   \<and> map_option (\<lambda>c. truthy (card_body c))
        (newest_card (catch_all clock ''foo'' (get_foo\<lparr>request_method := ''DELETE''\<rparr>) [])) = Some True"
proof -
  let ?r = "get_foo\<lparr>request_method := ''DELETE''\<rparr>"
  let ?res = "catch_all clock ''foo'' ?r []"
  have m: "request_method ?r \<notin> {''GET'', ''POST'', ''PUT'', ''PATCH''}"
    by simp
  have b: "extract_body ?r = Inr (PStr [])"
    by (rule extract_body_other [OF m])
  note c7 = empty_body_shows_placeholder [of clock "''foo''" ?r "[]" "PStr []"]
  note other = c7 [THEN conjunct2, THEN conjunct1, THEN mp, OF m]
  note shown = c7 [THEN conjunct2, THEN conjunct2, THEN conjunct1, THEN mp, OF b]
  note fixed = c7 [THEN conjunct2, THEN conjunct2, THEN conjunct2, THEN conjunct2]
  have e: "map_option body (newest_entry ?res) = Some (PStr [])"
    by (rule other [THEN conjunct1])
  have t: "map_option (\<lambda>e. truthy (body e)) x = Some False"
    if "map_option body x = Some (PStr [])" for x
    using that by (cases x) auto
  have c: "map_option card_body (newest_card ?res)
             = Some (PStr ''No body or query parameters received.'')"
    using other [THEN conjunct2] by (simp only: fixed)
  from m b e t [OF e] c shown show ?thesis
    by (intro conjI)
qed

text \<open>
  Claim C8 at a \<open>POST\<close> with JSON content type whose payload is valid JSON nested 100000
  deep: the decoder raises \<open>RecursionError\<close>, which \<open>get_json(silent=True)\<close> does not
  catch, so the view raises, no page is rendered and nothing is logged.
\<close>

theorem deep_json_raises:
  "request_method post_deep_json \<in> set route_methods
   \<and> request_is_json post_deep_json
   \<and> request_json post_deep_json = DecoderRecursionError
   \<and> get_json True post_deep_json = Inl RecursionError
   \<and> catch_all clock [] post_deep_json [] = Inl RecursionError
   \<and> serve [(clock, [], post_deep_json)] [] = ([Inl RecursionError], [])"
proof -
  let ?r = "post_deep_json"
  have m: "request_method ?r \<in> {''POST'', ''PUT'', ''PATCH''}" and j: "request_is_json ?r"
    and d: "request_json ?r = DecoderRecursionError"
    by (simp_all add: post_deep_json_def)
  have b: "extract_body ?r = Inl RecursionError"
    using extract_body_json [OF m j] d by simp
  have g: "get_json True ?r = Inl RecursionError"
    using j d by (simp add: get_json_def)
  have "request_method ?r \<in> set route_methods"
    by (simp add: post_deep_json_def route_methods_def)
  then show ?thesis
    using j d g by (simp add: catch_all_raises [OF b])
qed

text \<open>
  Claim C9. For \<open>POST\<close>, \<open>PUT\<close> and \<open>PATCH\<close> with a JSON content type, a payload that
  decodes to \<open>0\<close>, \<open>false\<close>, the empty string, the empty object or the empty array is
  stored as decoded, and the card shows the placeholder.
\<close>

theorem falsy_json_shows_placeholder:
  "request_method r \<in> {''POST'', ''PUT'', ''PATCH''} \<and> request_is_json r
     \<and> request_json r = Decoded v \<and> v \<in> {PInt 0, PBool False, PStr [], PDict [], PList []} \<longrightarrow>
     map_option body (newest_entry (catch_all now p r l)) = Some v
     \<and> map_option card_body (newest_card (catch_all now p r l))
         = Some (PStr ''No body or query parameters received.'')"
proof
  assume a: "request_method r \<in> {''POST'', ''PUT'', ''PATCH''} \<and> request_is_json r
     \<and> request_json r = Decoded v \<and> v \<in> {PInt 0, PBool False, PStr [], PDict [], PList []}"
  then have m: "request_method r \<in> {''POST'', ''PUT'', ''PATCH''}" and j: "request_is_json r"
    and d: "request_json r = Decoded v" and v: "v \<noteq> PNone" "\<not> truthy v"
    by auto
  have b: "extract_body r = Inr v"
    using extract_body_json [OF m j] d v by simp
  show "map_option body (newest_entry (catch_all now p r l)) = Some v
     \<and> map_option card_body (newest_card (catch_all now p r l))
         = Some (PStr ''No body or query parameters received.'')"
    using v
    by (simp add: newest_entry_catch_all [OF b] newest_card_catch_all [OF b]
        current_request_data_def render_card_def py_or_def placeholder_def)
qed

text \<open>C9 at a \<open>POST\<close> with the payload \<open>0\<close>.\<close>

theorem falsy_json_shows_placeholder_witness:
  "request_method (send_json ''POST'' ''0'' (Decoded (PInt 0))) \<in> {''POST'', ''PUT'', ''PATCH''}
   \<and> request_is_json (send_json ''POST'' ''0'' (Decoded (PInt 0)))
   \<and> request_json (send_json ''POST'' ''0'' (Decoded (PInt 0))) = Decoded (PInt 0)
   \<and> request_data (send_json ''POST'' ''0'' (Decoded (PInt 0))) = ''0''
   \<and> map_option body (newest_entry (catch_all clock [] (send_json ''POST'' ''0'' (Decoded (PInt 0))) []))
        = Some (PInt 0)
   \<and> map_option card_body (newest_card (catch_all clock [] (send_json ''POST'' ''0'' (Decoded (PInt 0))) []))
        = Some (PStr ''No body or query parameters received.'')"
  using falsy_json_shows_placeholder [of "send_json ''POST'' ''0'' (Decoded (PInt 0))" "PInt 0" clock "[]" "[]"]
  by (simp add: send_json_def)

text \<open>
  Claim C10. For \<open>POST\<close>, \<open>PUT\<close> and \<open>PATCH\<close> with a JSON content type, a payload that
  decodes to \<open>None\<close> (the literal \<open>null\<close>) is stored as the text of the payload, and the
  view returns exactly what it returns when the payload does not decode.
\<close>

theorem json_null_takes_fallback:
  "request_method r \<in> {''POST'', ''PUT'', ''PATCH''} \<and> request_is_json r
     \<and> request_json r = Decoded PNone \<longrightarrow>
     map_option body (newest_entry (catch_all now p r l)) = Some (PStr (request_data r))
     \<and> catch_all now p r l = catch_all now p (r\<lparr>request_json := JSONDecodeError\<rparr>) l"
proof
  assume a: "request_method r \<in> {''POST'', ''PUT'', ''PATCH''} \<and> request_is_json r
     \<and> request_json r = Decoded PNone"
  then have m: "request_method r \<in> {''POST'', ''PUT'', ''PATCH''}" and j: "request_is_json r"
    and d: "request_json r = Decoded PNone"
    by auto
  let ?r' = "r\<lparr>request_json := JSONDecodeError\<rparr>"
  have m': "request_method ?r' \<in> {''POST'', ''PUT'', ''PATCH''}" and j': "request_is_json ?r'"
    using m j by simp_all
  have b: "extract_body r = Inr (PStr (request_data r))"
    using extract_body_json [OF m j] d by simp
  have b': "extract_body ?r' = Inr (PStr (request_data r))"
    using extract_body_json [OF m' j'] by simp
  have "current_request_data now p ?r' (PStr (request_data r))
          = current_request_data now p r (PStr (request_data r))"
    by (simp add: current_request_data_def headers_str_def split: option.splits)
  then have "catch_all now p r l = catch_all now p ?r' l"
    by (simp add: catch_all_eq [OF b] catch_all_eq [OF b'])
  then show "map_option body (newest_entry (catch_all now p r l)) = Some (PStr (request_data r))
     \<and> catch_all now p r l = catch_all now p ?r' l"
    by (simp add: newest_entry_catch_all [OF b'] current_request_data_def)
qed

text \<open>C10 at a \<open>PUT\<close> with the payload \<open>null\<close>.\<close>

theorem json_null_takes_fallback_witness:
  "request_method (send_json ''PUT'' ''null'' (Decoded PNone)) \<in> {''POST'', ''PUT'', ''PATCH''}
   \<and> request_is_json (send_json ''PUT'' ''null'' (Decoded PNone))
   \<and> request_json (send_json ''PUT'' ''null'' (Decoded PNone)) = Decoded PNone
   \<and> map_option body (newest_entry (catch_all clock ''hook'' (send_json ''PUT'' ''null'' (Decoded PNone)) []))
        = Some (PStr ''null'')"
proof -
  let ?r = "send_json ''PUT'' ''null'' (Decoded PNone)"
  have h: "request_method ?r \<in> {''POST'', ''PUT'', ''PATCH''} \<and> request_is_json ?r
     \<and> request_json ?r = Decoded PNone"
    by (simp add: send_json_def)
  with json_null_takes_fallback [of ?r clock "''hook''" "[]"]
  have "map_option body (newest_entry (catch_all clock ''hook'' ?r [])) = Some (PStr (request_data ?r))"
    by blast
  moreover have "request_data ?r = ''null''"
    by (simp add: send_json_def)
  ultimately show ?thesis
    using h by simp
qed

end
